theory Spec2Isabelle
  imports Main
begin

section \<open>The AlgoBulls API client (pyalgotrading/algobulls/api.py)\<close>

text \<open>
  A shallow embedding of the class \<open>AlgoBullsAPI\<close>. The client is a thin layer over
  the \<open>requests\<close> library: every public method builds a request, hands it to
  \<open>_send_request\<close> and returns the parsed answer or raises. The model makes three
  things explicit that the Python leaves implicit:
  \<^item> the object \<open>self\<close> is a record that methods take and give back (also when they
    raise: an assignment made before the raise stays);
  \<^item> the network is a log of the requests issued so far, and the backend is a function
    of that log and the current request (so it may be stateful);
  \<^item> an exception is a value \<open>Inl e\<close> of the result type.
  Output written with \<open>print\<close> is not part of the model.
\<close>

subsection \<open>Python values\<close>

text \<open>
  The values \<open>json.loads\<close> produces, which are also the values the client handles:
  \<open>PyNone\<close> is Python's \<open>None\<close> (JSON \<open>null\<close>), \<open>PyStr\<close> a \<open>str\<close>, \<open>PyDict\<close> a
  \<open>dict\<close> given by its items (the keys of a dict are distinct). A float keeps the text
  of its literal: the client never computes with one.
\<close>

datatype pyval =
    PyNone
  | PyBool bool
  | PyInt int
  | PyFloat string
  | PyStr string
  | PyList "pyval list"
  | PyDict "(string \<times> pyval) list"

subsection \<open>Enumerated tags\<close>

text \<open>
  Modelled from the spec: \<open>constants.py\<close> (the enums \<open>TradingType\<close> and
  \<open>TradingReportType\<close>) is not among the sources; the spec names their members.
\<close>

datatype TradingType = BACKTESTING | PAPERTRADING | REALTRADING

datatype TradingReportType = PNL_TABLE | STATS_TABLE | ORDER_HISTORY

text \<open>
  Python does not enforce the annotation \<open>trading_type: TradingType\<close>: a caller can pass
  any object. \<open>Member m\<close> is the enum member \<open>m\<close>; \<open>Unrecognized v\<close> is any other object
  (it is identical to no member, and equal to none).
\<close>

datatype 'e tag = Member 'e | Unrecognized pyval

subsection \<open>Exceptions\<close>

text \<open>
  Modelled from the spec: \<open>exceptions.py\<close> is not among the sources. The seven
  exception classes that \<open>api.py\<close> imports are taken to be the base class and six
  siblings under it, each built from the keyword arguments \<open>method\<close>, \<open>url\<close> and
  \<open>response\<close>.
\<close>

datatype api_exception =
    AlgoBullsAPIBaseException
  | AlgoBullsAPIBadRequest
  | AlgoBullsAPIUnauthorizedError
  | AlgoBullsAPIInsufficientBalanceError
  | AlgoBullsAPIForbiddenError
  | AlgoBullsAPIResourceNotFoundError
  | AlgoBullsAPIInternalServerErrorException

text \<open>
  \<open>APIError cls method url response\<close> is an instance of class \<open>cls\<close>.
  \<open>JSONDecodeError\<close> is \<open>json.JSONDecodeError\<close>, the class \<open>api.py\<close> imports and
  catches (an instance of a subclass counts as one). \<open>AttributeError\<close> is what
  \<open>response.get\<close> raises on a value that is not a dict, and \<open>RequestException\<close> stands
  for whatever \<open>requests.request\<close> itself raises. \<open>PyException name\<close> is an exception
  of any other class, given by the name of the class: a \<open>RecursionError\<close> of the parser
  on a deeply nested body, or the decode error of \<open>simplejson\<close>, which is no
  \<open>json.JSONDecodeError\<close>.
\<close>

datatype error =
    APIError api_exception string string pyval
  | JSONDecodeError
  | NotImplementedError
  | AttributeError
  | RequestException string
  | PyException string

subsection \<open>Requests, responses and the world outside\<close>

text \<open>The keyword arguments of \<open>requests.request\<close>; \<open>None\<close> headers are no headers.\<close>

record request =
  req_method :: string
  req_headers :: "(string \<times> string) list option"
  req_url :: string
  req_params :: pyval
  req_json :: pyval

text \<open>
  What the client reads of a response: \<open>status_code\<close>, the outcome of the call
  \<open>response.json()\<close> (the parsed body, or the exception the call raises: a
  \<open>JSONDecodeError\<close> or any other) and the text of \<open>str(response)\<close>. The parse is a
  function of the body, so a second call has the outcome of the first.
\<close>

record response =
  status_code :: int
  json_call :: "error + pyval"
  str_repr :: string

text \<open>
  Everything the client calls and does not define: \<open>requests.request\<close> (given the
  calls made before and the current one, it raises or answers), the \<open>value\<close> of an enum
  member, and the text an f-string gives a value.
\<close>

record env =
  requests_request :: "request list \<Rightarrow> request \<Rightarrow> error + response"
  trading_type_value :: "TradingType \<Rightarrow> pyval"
  format_value :: "pyval \<Rightarrow> string"

subsection \<open>The client object\<close>

record AlgoBullsAPI =
  headers :: "(string \<times> string) list option"
  key_backtesting :: pyval
  key_papertrading :: pyval
  key_realtrading :: pyval

definition SERVER_ENDPOINT :: string where
  "SERVER_ENDPOINT = ''http://127.0.0.1:8000/''"

definition init :: AlgoBullsAPI where
  "init = \<lparr>headers = None, key_backtesting = PyNone, key_papertrading = PyNone,
            key_realtrading = PyNone\<rparr>"

definition set_access_token :: "AlgoBullsAPI \<Rightarrow> string \<Rightarrow> AlgoBullsAPI" where
  "set_access_token self access_token =
     self\<lparr>headers := Some [(''Authorization'', access_token)]\<rparr>"

subsection \<open>The request dispatch\<close>

text \<open>
  The guarded parse of \<open>_send_request\<close> (\<open>try: response.json()\<close> with
  \<open>except JSONDecodeError\<close>): the parsed body; \<open>str(response)\<close> when the parse raises
  \<open>JSONDecodeError\<close>; and any other exception of the parse is not caught.
\<close>

definition guarded_parse :: "response \<Rightarrow> error + pyval" where
  "guarded_parse response =
     (case json_call response of
        Inr j \<Rightarrow> Inr j
      | Inl ex \<Rightarrow> (if ex = JSONDecodeError then Inr (PyStr (str_repr response)) else Inl ex))"

text \<open>
  \<open>_send_request\<close>. It reads \<open>self.headers\<close> and assigns nothing to \<open>self\<close>, so it
  gives back the result and the log only. The local \<open>response_json\<close> is the value of
  the guarded parse; an exception that the guard lets through leaves the method before
  the status is looked at. The branch for status 200 parses again, outside the guard.
  (The last branch also sets \<open>response.raw.decode_content\<close>, which nothing reads.)
\<close>

definition send_request ::
  "env \<Rightarrow> AlgoBullsAPI \<Rightarrow> string \<Rightarrow> string \<Rightarrow> string \<Rightarrow> pyval \<Rightarrow> pyval \<Rightarrow> bool \<Rightarrow>
   request list \<Rightarrow> (error + pyval) \<times> request list" where
  "send_request env self method endpoint base_url params json_data requires_authorization sent =
     (let url = base_url @ endpoint;
          hdrs = (if requires_authorization then headers self else None);
          rq = \<lparr>req_method = method, req_headers = hdrs, req_url = url,
                req_params = params, req_json = json_data\<rparr>;
          sent' = sent @ [rq]
      in case requests_request env sent rq of
           Inl e \<Rightarrow> (Inl e, sent')
         | Inr response \<Rightarrow>
             (case guarded_parse response of
                Inl ex \<Rightarrow> (Inl ex, sent')
              | Inr response_json \<Rightarrow>
                 if status_code response = 200 then
                   (case json_call response of
                      Inr j \<Rightarrow> (Inr j, sent')
                    | Inl ex \<Rightarrow> (Inl ex, sent'))
                 else if status_code response = 400 then
                   (Inl (APIError AlgoBullsAPIBadRequest method url response_json), sent')
                 else if status_code response = 401 then
                   (Inl (APIError AlgoBullsAPIUnauthorizedError method url response_json), sent')
                 else if status_code response = 402 then
                   (Inl (APIError AlgoBullsAPIInsufficientBalanceError method url response_json), sent')
                 else if status_code response = 403 then
                   (Inl (APIError AlgoBullsAPIForbiddenError method url response_json), sent')
                 else if status_code response = 404 then
                   (Inl (APIError AlgoBullsAPIResourceNotFoundError method url response_json), sent')
                 else if status_code response = 500 then
                   (Inl (APIError AlgoBullsAPIInternalServerErrorException method url response_json), sent')
                 else
                   (Inl (APIError AlgoBullsAPIBaseException method url response_json), sent')))"

text \<open>The request that \<open>_send_request\<close> builds from its arguments.\<close>

definition built_request ::
  "AlgoBullsAPI \<Rightarrow> string \<Rightarrow> string \<Rightarrow> string \<Rightarrow> pyval \<Rightarrow> pyval \<Rightarrow> bool \<Rightarrow> request" where
  "built_request self method endpoint base_url params json_data requires_authorization =
     \<lparr>req_method = method,
      req_headers = (if requires_authorization then headers self else None),
      req_url = base_url @ endpoint, req_params = params, req_json = json_data\<rparr>"

subsection \<open>Key resolution\<close>

text \<open>\<open>response.get('key')\<close>: a dict gives the entry or \<open>None\<close>; no other value has \<open>get\<close>.\<close>

fun dict_get :: "pyval \<Rightarrow> string \<Rightarrow> error + pyval" where
  "dict_get (PyDict items) k = Inr (case map_of items k of None \<Rightarrow> PyNone | Some v \<Rightarrow> v)"
| "dict_get _ k = Inl AttributeError"

text \<open>\<open>__fetch_key\<close>: the registration ("add strategy") request.\<close>

definition fetch_key ::
  "env \<Rightarrow> AlgoBullsAPI \<Rightarrow> string \<Rightarrow> TradingType \<Rightarrow> request list \<Rightarrow>
   (error + pyval) \<times> request list" where
  "fetch_key env self strategy_code trading_type sent =
     (let endpoint = ''v2/portfolio/strategy'';
          json_data = PyDict [(''strategyId'', PyStr strategy_code),
                              (''tradingType'', trading_type_value env trading_type)]
      in case send_request env self ''options'' endpoint SERVER_ENDPOINT PyNone json_data True sent of
           (Inl e, sent') \<Rightarrow> (Inl e, sent')
         | (Inr response, sent') \<Rightarrow> (dict_get response ''key'', sent'))"

text \<open>
  \<open>__get_key\<close>: one slot per trading type, empty while it holds \<open>None\<close>. The slot is
  assigned only when \<open>__fetch_key\<close> returns; the assigned value may be \<open>None\<close> again.
\<close>

definition get_key ::
  "env \<Rightarrow> AlgoBullsAPI \<Rightarrow> string \<Rightarrow> TradingType tag \<Rightarrow> request list \<Rightarrow>
   (error + pyval) \<times> AlgoBullsAPI \<times> request list" where
  "get_key env self strategy_code trading_type sent =
     (if trading_type = Member BACKTESTING then
        (if key_backtesting self = PyNone then
           (case fetch_key env self strategy_code BACKTESTING sent of
              (Inl e, sent') \<Rightarrow> (Inl e, self, sent')
            | (Inr key, sent') \<Rightarrow> (Inr key, self\<lparr>key_backtesting := key\<rparr>, sent'))
         else (Inr (key_backtesting self), self, sent))
      else if trading_type = Member PAPERTRADING then
        (if key_papertrading self = PyNone then
           (case fetch_key env self strategy_code PAPERTRADING sent of
              (Inl e, sent') \<Rightarrow> (Inl e, self, sent')
            | (Inr key, sent') \<Rightarrow> (Inr key, self\<lparr>key_papertrading := key\<rparr>, sent'))
         else (Inr (key_papertrading self), self, sent))
      else if trading_type = Member REALTRADING then
        (if key_realtrading self = PyNone then
           (case fetch_key env self strategy_code REALTRADING sent of
              (Inl e, sent') \<Rightarrow> (Inl e, self, sent')
            | (Inr key, sent') \<Rightarrow> (Inr key, self\<lparr>key_realtrading := key\<rparr>, sent'))
         else (Inr (key_realtrading self), self, sent))
      else (Inl NotImplementedError, self, sent))"

subsection \<open>Public operations\<close>

definition create_strategy ::
  "env \<Rightarrow> AlgoBullsAPI \<Rightarrow> string \<Rightarrow> string \<Rightarrow> string \<Rightarrow> request list \<Rightarrow>
   (error + pyval) \<times> request list" where
  "create_strategy env self strategy_name strategy_details abc_version sent =
     (let json_data = PyDict [(''strategyName'', PyStr strategy_name),
                              (''strategyDetails'', PyStr strategy_details),
                              (''abcVersion'', PyStr abc_version)];
          endpoint = ''v2/user/strategy/build/python''
      in send_request env self ''post'' endpoint SERVER_ENDPOINT PyNone json_data True sent)"

definition update_strategy ::
  "env \<Rightarrow> AlgoBullsAPI \<Rightarrow> string \<Rightarrow> string \<Rightarrow> string \<Rightarrow> request list \<Rightarrow>
   (error + pyval) \<times> request list" where
  "update_strategy env self strategy_name strategy_details abc_version sent =
     (let json_data = PyDict [(''strategyName'', PyStr strategy_name),
                              (''strategyDetails'', PyStr strategy_details),
                              (''abcVersion'', PyStr abc_version)];
          endpoint = ''v2/user/strategy/build/python''
      in send_request env self ''put'' endpoint SERVER_ENDPOINT PyNone json_data True sent)"

definition get_all_strategies ::
  "env \<Rightarrow> AlgoBullsAPI \<Rightarrow> request list \<Rightarrow> (error + pyval) \<times> request list" where
  "get_all_strategies env self sent =
     (let endpoint = ''v2/user/strategy/build/python''
      in send_request env self ''options'' endpoint SERVER_ENDPOINT PyNone PyNone True sent)"

definition get_strategy_details ::
  "env \<Rightarrow> AlgoBullsAPI \<Rightarrow> string \<Rightarrow> request list \<Rightarrow> (error + pyval) \<times> request list" where
  "get_strategy_details env self strategy_code sent =
     (let params = PyDict [(''strategyCode'', PyStr strategy_code)];
          endpoint = ''v2/user/strategy/build/python''
      in send_request env self ''get'' endpoint SERVER_ENDPOINT params PyNone True sent)"

definition search_instrument ::
  "env \<Rightarrow> AlgoBullsAPI \<Rightarrow> string \<Rightarrow> request list \<Rightarrow> (error + pyval) \<times> request list" where
  "search_instrument env self instrument sent =
     (let params = PyDict [(''instrument'', PyStr instrument)];
          endpoint = ''v2/instrument/search''
      in send_request env self ''get'' endpoint SERVER_ENDPOINT params PyNone False sent)"

text \<open>\<open>set_strategy_config\<close> returns the pair \<open>(key, response)\<close>.\<close>

definition set_strategy_config ::
  "env \<Rightarrow> AlgoBullsAPI \<Rightarrow> string \<Rightarrow> pyval \<Rightarrow> TradingType tag \<Rightarrow> request list \<Rightarrow>
   (error + pyval \<times> pyval) \<times> AlgoBullsAPI \<times> request list" where
  "set_strategy_config env self strategy_code strategy_config trading_type sent =
     (let json_data = strategy_config
      in case get_key env self strategy_code trading_type sent of
           (Inl e, self', sent') \<Rightarrow> (Inl e, self', sent')
         | (Inr key, self', sent') \<Rightarrow>
             (let endpoint = ''v2/user/strategy/'' @ format_value env key @ ''/tweak''
              in case send_request env self' ''patch'' endpoint SERVER_ENDPOINT PyNone json_data True sent' of
                   (Inl e, sent'') \<Rightarrow> (Inl e, self', sent'')
                 | (Inr response, sent'') \<Rightarrow> (Inr (key, response), self', sent'')))"

text \<open>
  The endpoint selection that opens \<open>start_strategy_algotrading\<close> and
  \<open>stop_strategy_algotrading\<close> (the same chain in both).
\<close>

definition strategies_endpoint :: "TradingType tag \<Rightarrow> error + string" where
  "strategies_endpoint trading_type =
     (if trading_type = Member REALTRADING then Inr ''v2/portfolio/strategies''
      else if trading_type = Member PAPERTRADING then Inr ''v2/papertrading/strategies''
      else if trading_type = Member BACKTESTING then Inr ''v2/backtesting/strategies''
      else Inl NotImplementedError)"

text \<open>
  The \<open>try\<close> block of the two methods: key resolution, then the job request. The two
  differ in \<open>newVal\<close> and in the \<open>status\<close> of \<open>record\<close> only.
\<close>

definition job_try_block ::
  "env \<Rightarrow> AlgoBullsAPI \<Rightarrow> string \<Rightarrow> TradingType tag \<Rightarrow> string \<Rightarrow> int \<Rightarrow> int \<Rightarrow> request list \<Rightarrow>
   (error + pyval) \<times> AlgoBullsAPI \<times> request list" where
  "job_try_block env self strategy_code trading_type endpoint new_val status sent =
     (case get_key env self strategy_code trading_type sent of
        (Inl e, self', sent') \<Rightarrow> (Inl e, self', sent')
      | (Inr key, self', sent') \<Rightarrow>
          (let json_data = PyDict [(''method'', PyStr ''update''), (''newVal'', PyInt new_val),
                                   (''key'', key), (''record'', PyDict [(''status'', PyInt status)])]
           in case send_request env self' ''post'' endpoint SERVER_ENDPOINT PyNone json_data True sent' of
                (r, sent'') \<Rightarrow> (r, self', sent'')))"

text \<open>
  The clause \<open>except (AlgoBullsAPIForbiddenError, AlgoBullsAPIInsufficientBalanceError)\<close>:
  the exceptions it catches.
\<close>

fun caught :: "error \<Rightarrow> bool" where
  "caught (APIError cls m u r) =
     (cls = AlgoBullsAPIForbiddenError \<or> cls = AlgoBullsAPIInsufficientBalanceError)"
| "caught _ = False"

text \<open>
  The handler prints and falls off the end of the method, which then returns \<open>None\<close>.
  (It calls \<open>ex.get_error_type()\<close> of \<open>exceptions.py\<close>, taken to return.)
\<close>

definition except_handler ::
  "(error + pyval) \<times> AlgoBullsAPI \<times> request list \<Rightarrow>
   (error + pyval) \<times> AlgoBullsAPI \<times> request list" where
  "except_handler out =
     (case out of
        (Inl ex, self', sent') \<Rightarrow>
          (if caught ex then (Inr PyNone, self', sent') else (Inl ex, self', sent'))
      | (Inr response, self', sent') \<Rightarrow> (Inr response, self', sent'))"

definition start_strategy_algotrading ::
  "env \<Rightarrow> AlgoBullsAPI \<Rightarrow> string \<Rightarrow> TradingType tag \<Rightarrow> request list \<Rightarrow>
   (error + pyval) \<times> AlgoBullsAPI \<times> request list" where
  "start_strategy_algotrading env self strategy_code trading_type sent =
     (case strategies_endpoint trading_type of
        Inl e \<Rightarrow> (Inl e, self, sent)
      | Inr endpoint \<Rightarrow>
          except_handler (job_try_block env self strategy_code trading_type endpoint 1 0 sent))"

definition stop_strategy_algotrading ::
  "env \<Rightarrow> AlgoBullsAPI \<Rightarrow> string \<Rightarrow> TradingType tag \<Rightarrow> request list \<Rightarrow>
   (error + pyval) \<times> AlgoBullsAPI \<times> request list" where
  "stop_strategy_algotrading env self strategy_code trading_type sent =
     (case strategies_endpoint trading_type of
        Inl e \<Rightarrow> (Inl e, self, sent)
      | Inr endpoint \<Rightarrow>
          except_handler (job_try_block env self strategy_code trading_type endpoint 0 2 sent))"

definition get_job_status ::
  "env \<Rightarrow> AlgoBullsAPI \<Rightarrow> string \<Rightarrow> TradingType tag \<Rightarrow> request list \<Rightarrow>
   (error + pyval) \<times> AlgoBullsAPI \<times> request list" where
  "get_job_status env self strategy_code trading_type sent =
     (case get_key env self strategy_code trading_type sent of
        (Inl e, self', sent') \<Rightarrow> (Inl e, self', sent')
      | (Inr key, self', sent') \<Rightarrow>
          (let params = PyDict [(''key'', key)];
               endpoint = ''v2/user/strategy/status''
           in case send_request env self' ''get'' endpoint SERVER_ENDPOINT params PyNone True sent' of
                (r, sent'') \<Rightarrow> (r, self', sent'')))"

definition get_logs ::
  "env \<Rightarrow> AlgoBullsAPI \<Rightarrow> string \<Rightarrow> TradingType tag \<Rightarrow> request list \<Rightarrow>
   (error + pyval) \<times> AlgoBullsAPI \<times> request list" where
  "get_logs env self strategy_code trading_type sent =
     (let endpoint = ''v2/user/strategy/logs''
      in case get_key env self strategy_code trading_type sent of
           (Inl e, self', sent') \<Rightarrow> (Inl e, self', sent')
         | (Inr key, self', sent') \<Rightarrow>
             (let json_data = PyDict [(''key'', key)]
              in case send_request env self' ''post'' endpoint SERVER_ENDPOINT PyNone json_data True sent' of
                   (r, sent'') \<Rightarrow> (r, self', sent'')))"

text \<open>The endpoint selection that opens \<open>get_reports\<close>.\<close>

definition report_endpoint :: "TradingReportType tag \<Rightarrow> error + string" where
  "report_endpoint report_type =
     (if report_type = Member PNL_TABLE then Inr ''v2/user/strategy/pltable''
      else if report_type = Member STATS_TABLE then Inr ''v2/user/strategy/statstable''
      else if report_type = Member ORDER_HISTORY then Inr ''v2/user/strategy/orderhistory''
      else Inl NotImplementedError)"

definition get_reports ::
  "env \<Rightarrow> AlgoBullsAPI \<Rightarrow> string \<Rightarrow> TradingType tag \<Rightarrow> TradingReportType tag \<Rightarrow> request list \<Rightarrow>
   (error + pyval) \<times> AlgoBullsAPI \<times> request list" where
  "get_reports env self strategy_code trading_type report_type sent =
     (case report_endpoint report_type of
        Inl e \<Rightarrow> (Inl e, self, sent)
      | Inr endpoint \<Rightarrow>
          (case get_key env self strategy_code trading_type sent of
             (Inl e, self', sent') \<Rightarrow> (Inl e, self', sent')
           | (Inr key, self', sent') \<Rightarrow>
               (let params = PyDict [(''key'', key)]
                in case send_request env self' ''get'' endpoint SERVER_ENDPOINT params PyNone True sent' of
                     (r, sent'') \<Rightarrow> (r, self', sent''))))"

text \<open>
  The shape the key-dependent methods share, as a function of its own for the proofs:
  resolve the key, then send one request whose endpoint, parameters and body may
  contain the key. An exception of either step ends the method.
\<close>

definition key_then_request ::
  "env \<Rightarrow> AlgoBullsAPI \<Rightarrow> string \<Rightarrow> TradingType tag \<Rightarrow> string \<Rightarrow> (pyval \<Rightarrow> string) \<Rightarrow>
   (pyval \<Rightarrow> pyval) \<Rightarrow> (pyval \<Rightarrow> pyval) \<Rightarrow> request list \<Rightarrow>
   (error + pyval) \<times> AlgoBullsAPI \<times> request list" where
  "key_then_request env self strategy_code trading_type method endpoint params json_data sent =
     (case get_key env self strategy_code trading_type sent of
        (Inl e, self', sent') \<Rightarrow> (Inl e, self', sent')
      | (Inr key, self', sent') \<Rightarrow>
          (case send_request env self' method (endpoint key) SERVER_ENDPOINT (params key)
                  (json_data key) True sent' of
             (r, sent'') \<Rightarrow> (r, self', sent'')))"

subsection \<open>Sequences of calls on one client\<close>

text \<open>A call of a method of the client, with its arguments.\<close>

datatype call =
    SetAccessToken string
  | CreateStrategy string string string
  | UpdateStrategy string string string
  | GetAllStrategies
  | GetStrategyDetails string
  | SearchInstrument string
  | SetStrategyConfig string pyval "TradingType tag"
  | StartStrategyAlgotrading string "TradingType tag"
  | StopStrategyAlgotrading string "TradingType tag"
  | GetJobStatus string "TradingType tag"
  | GetLogs string "TradingType tag"
  | GetReports string "TradingType tag" "TradingReportType tag"

text \<open>
  The effect of a call on the client and on the log; what it returns or raises is
  dropped (a caller that goes on after an exception has caught it).
\<close>

fun run_call :: "env \<Rightarrow> call \<Rightarrow> AlgoBullsAPI \<times> request list \<Rightarrow> AlgoBullsAPI \<times> request list" where
  "run_call env (SetAccessToken tok) (self, sent) = (set_access_token self tok, sent)"
| "run_call env (CreateStrategy n d v) (self, sent) = (self, snd (create_strategy env self n d v sent))"
| "run_call env (UpdateStrategy n d v) (self, sent) = (self, snd (update_strategy env self n d v sent))"
| "run_call env GetAllStrategies (self, sent) = (self, snd (get_all_strategies env self sent))"
| "run_call env (GetStrategyDetails c) (self, sent) = (self, snd (get_strategy_details env self c sent))"
| "run_call env (SearchInstrument i) (self, sent) = (self, snd (search_instrument env self i sent))"
| "run_call env (SetStrategyConfig c cfg t) (self, sent) = snd (set_strategy_config env self c cfg t sent)"
| "run_call env (StartStrategyAlgotrading c t) (self, sent) = snd (start_strategy_algotrading env self c t sent)"
| "run_call env (StopStrategyAlgotrading c t) (self, sent) = snd (stop_strategy_algotrading env self c t sent)"
| "run_call env (GetJobStatus c t) (self, sent) = snd (get_job_status env self c t sent)"
| "run_call env (GetLogs c t) (self, sent) = snd (get_logs env self c t sent)"
| "run_call env (GetReports c t r) (self, sent) = snd (get_reports env self c t r sent)"

fun run_calls :: "env \<Rightarrow> call list \<Rightarrow> AlgoBullsAPI \<times> request list \<Rightarrow> AlgoBullsAPI \<times> request list" where
  "run_calls env [] st = st"
| "run_calls env (c # cs) st = run_calls env cs (run_call env c st)"

text \<open>The trading type a key-dependent call resolves its key for.\<close>

fun key_dependent :: "call \<Rightarrow> TradingType tag option" where
  "key_dependent (SetStrategyConfig c cfg t) = Some t"
| "key_dependent (StartStrategyAlgotrading c t) = Some t"
| "key_dependent (StopStrategyAlgotrading c t) = Some t"
| "key_dependent (GetJobStatus c t) = Some t"
| "key_dependent (GetLogs c t) = Some t"
| "key_dependent (GetReports c t r) = Some t"
| "key_dependent _ = None"


text \<open>The cache slot of a trading type.\<close>

fun slot :: "TradingType \<Rightarrow> AlgoBullsAPI \<Rightarrow> pyval" where
  "slot BACKTESTING self = key_backtesting self"
| "slot PAPERTRADING self = key_papertrading self"
| "slot REALTRADING self = key_realtrading self"

text \<open>A registration request is the one \<open>__fetch_key\<close> sends.\<close>

definition is_registration :: "request \<Rightarrow> bool" where
  "is_registration rq =
     (req_method rq = ''options'' \<and> req_url rq = SERVER_ENDPOINT @ ''v2/portfolio/strategy'')"

definition registrations :: "request list \<Rightarrow> nat" where
  "registrations sent = length (filter is_registration sent)"

text \<open>Assigning to the cache slot of a trading type.\<close>

fun set_slot :: "TradingType \<Rightarrow> pyval \<Rightarrow> AlgoBullsAPI \<Rightarrow> AlgoBullsAPI" where
  "set_slot BACKTESTING key self = self\<lparr>key_backtesting := key\<rparr>"
| "set_slot PAPERTRADING key self = self\<lparr>key_papertrading := key\<rparr>"
| "set_slot REALTRADING key self = self\<lparr>key_realtrading := key\<rparr>"


subsection \<open>Example backends\<close>

text \<open>
  Concrete worlds to run the client in. The enum values and the formatting are fixed
  here for the examples only; the theorems hold for every \<open>env\<close>.
\<close>

definition example_env :: "(request list \<Rightarrow> request \<Rightarrow> error + response) \<Rightarrow> env" where
  "example_env srv =
     \<lparr>requests_request = srv,
      trading_type_value =
        (\<lambda>t. case t of BACKTESTING \<Rightarrow> PyStr ''BACKTESTING''
                     | PAPERTRADING \<Rightarrow> PyStr ''PAPERTRADING''
                     | REALTRADING \<Rightarrow> PyStr ''REALTRADING''),
      format_value = (\<lambda>v. case v of PyStr s \<Rightarrow> s | _ \<Rightarrow> ''None'')\<rparr>"

text \<open>A backend that gives every request the same answer.\<close>

definition always :: "response \<Rightarrow> request list \<Rightarrow> request \<Rightarrow> error + response" where
  "always r hist rq = Inr r"

definition json_response :: "int \<Rightarrow> pyval \<Rightarrow> response" where
  "json_response code body =
     \<lparr>status_code = code, json_call = Inr body, str_repr = ''<Response>''\<rparr>"

text \<open>A response whose body is not JSON: the parse raises \<open>JSONDecodeError\<close>.\<close>

definition html_response :: "int \<Rightarrow> string \<Rightarrow> response" where
  "html_response code text =
     \<lparr>status_code = code, json_call = Inl JSONDecodeError, str_repr = text\<rparr>"

text \<open>
  A response whose body is brackets nested too deeply for the parser (two thousand
  \<open>[\<close>, say): the parse raises \<open>RecursionError\<close>.
\<close>

definition deep_response :: "int \<Rightarrow> string \<Rightarrow> response" where
  "deep_response code text =
     \<lparr>status_code = code, json_call = Inl (PyException ''RecursionError''), str_repr = text\<rparr>"

text \<open>
  A backend that registers every strategy under a key of its own (the strategy's code
  with \<open>key-\<close> in front) and answers every other request with an empty object.
\<close>

definition keyed_backend :: "request list \<Rightarrow> request \<Rightarrow> error + response" where
  "keyed_backend hist rq =
     (if is_registration rq then
        (case dict_get (req_json rq) ''strategyId'' of
           Inr (PyStr code) \<Rightarrow> Inr (json_response 200 (PyDict [(''key'', PyStr (''key-'' @ code))]))
         | _ \<Rightarrow> Inr (json_response 400 (PyDict [])))
      else Inr (json_response 200 (PyDict [])))"


section \<open>Properties\<close>

lemma send_request_log:
  "snd (send_request env self m ep base ps jd ra sent) =
     sent @ [built_request self m ep base ps jd ra]"
  by (simp add: send_request_def built_request_def Let_def split: sum.splits option.splits)

lemma guarded_parse_cases:
  "(json_call r = Inr j \<longrightarrow> guarded_parse r = Inr j)
 \<and> (json_call r = Inl JSONDecodeError \<longrightarrow> guarded_parse r = Inr (PyStr (str_repr r)))
 \<and> (json_call r = Inl ex \<and> ex \<noteq> JSONDecodeError \<longrightarrow> guarded_parse r = Inl ex)"
  by (simp add: guarded_parse_def)

lemma send_request_answer:
  assumes "requests_request env sent (built_request self m ep base ps jd ra) = Inr r"
      and "guarded_parse r = Inr p"
  shows "send_request env self m ep base ps jd ra sent =
     ((if status_code r = 200 then json_call r
       else if status_code r = 400 then Inl (APIError AlgoBullsAPIBadRequest m (base @ ep) p)
       else if status_code r = 401 then Inl (APIError AlgoBullsAPIUnauthorizedError m (base @ ep) p)
       else if status_code r = 402 then Inl (APIError AlgoBullsAPIInsufficientBalanceError m (base @ ep) p)
       else if status_code r = 403 then Inl (APIError AlgoBullsAPIForbiddenError m (base @ ep) p)
       else if status_code r = 404 then Inl (APIError AlgoBullsAPIResourceNotFoundError m (base @ ep) p)
       else if status_code r = 500 then Inl (APIError AlgoBullsAPIInternalServerErrorException m (base @ ep) p)
       else Inl (APIError AlgoBullsAPIBaseException m (base @ ep) p)),
      sent @ [built_request self m ep base ps jd ra])"
  using assms
  by (simp add: send_request_def built_request_def Let_def split: sum.splits)

lemma send_request_parse_raises:
  assumes "requests_request env sent (built_request self m ep base ps jd ra) = Inr r"
      and "guarded_parse r = Inl ex"
  shows "send_request env self m ep base ps jd ra sent =
           (Inl ex, sent @ [built_request self m ep base ps jd ra])"
  using assms
  by (simp add: send_request_def built_request_def Let_def)

lemma send_request_raises:
  assumes "requests_request env sent (built_request self m ep base ps jd ra) = Inl e"
  shows "send_request env self m ep base ps jd ra sent = (Inl e, sent @ [built_request self m ep base ps jd ra])"
  using assms
  by (simp add: send_request_def built_request_def Let_def)

lemma send_request_headers_only:
  "headers self2 = headers self1 \<Longrightarrow>
   send_request env self2 m ep base ps jd ra sent = send_request env self1 m ep base ps jd ra sent"
  by (cases ra) (simp_all add: send_request_def Let_def cong: sum.case_cong)

lemma fetch_key_headers_only:
  "headers self2 = headers self1 \<Longrightarrow>
   fetch_key env self2 c t sent = fetch_key env self1 c t sent"
  by (simp add: fetch_key_def Let_def send_request_headers_only [of self2 self1])

lemma get_key_Member:
  "get_key env self c (Member t) sent =
     (if slot t self = PyNone then
        (case fetch_key env self c t sent of
           (Inl e, sent') \<Rightarrow> (Inl e, self, sent')
         | (Inr key, sent') \<Rightarrow> (Inr key, set_slot t key self, sent'))
      else (Inr (slot t self), self, sent))"
  by (cases t) (auto simp: get_key_def split: prod.splits sum.splits)

lemma get_key_Unrecognized:
  "get_key env self c (Unrecognized v) sent = (Inl NotImplementedError, self, sent)"
  by (simp add: get_key_def)

subsection \<open>Status dispatch\<close>

text \<open>
  Claim C1, amended. Whatever response \<open>_send_request\<close> receives whose parse returns a
  value or raises \<open>JSONDecodeError\<close> (so that the guarded parse gives a payload: the
  parsed body, or \<open>str(response)\<close>): on status 200, when the body parses, it returns the
  parsed JSON body; on status 400, 401, 402, 403, 404 and 500 it raises
  \<open>AlgoBullsAPIBadRequest\<close>, \<open>AlgoBullsAPIUnauthorizedError\<close>,
  \<open>AlgoBullsAPIInsufficientBalanceError\<close>, \<open>AlgoBullsAPIForbiddenError\<close>,
  \<open>AlgoBullsAPIResourceNotFoundError\<close> and \<open>AlgoBullsAPIInternalServerErrorException\<close>
  respectively; on every other status but 200 it raises \<open>AlgoBullsAPIBaseException\<close>;
  and every one of these errors carries the method, the full URL (base URL followed by
  the endpoint) and the payload. When the parse raises any other exception, that
  exception leaves \<open>_send_request\<close>, whatever the status.
\<close>

theorem send_request_status_dispatch:
  assumes "requests_request env sent (built_request self m ep base ps jd ra) = Inr r"
  shows "(status_code r = 200 \<and> json_call r = Inr j \<longrightarrow>
            fst (send_request env self m ep base ps jd ra sent) = Inr j)
       \<and> (guarded_parse r = Inr p \<longrightarrow>
            (status_code r = 400 \<longrightarrow> fst (send_request env self m ep base ps jd ra sent) =
               Inl (APIError AlgoBullsAPIBadRequest m (base @ ep) p))
          \<and> (status_code r = 401 \<longrightarrow> fst (send_request env self m ep base ps jd ra sent) =
               Inl (APIError AlgoBullsAPIUnauthorizedError m (base @ ep) p))
          \<and> (status_code r = 402 \<longrightarrow> fst (send_request env self m ep base ps jd ra sent) =
               Inl (APIError AlgoBullsAPIInsufficientBalanceError m (base @ ep) p))
          \<and> (status_code r = 403 \<longrightarrow> fst (send_request env self m ep base ps jd ra sent) =
               Inl (APIError AlgoBullsAPIForbiddenError m (base @ ep) p))
          \<and> (status_code r = 404 \<longrightarrow> fst (send_request env self m ep base ps jd ra sent) =
               Inl (APIError AlgoBullsAPIResourceNotFoundError m (base @ ep) p))
          \<and> (status_code r = 500 \<longrightarrow> fst (send_request env self m ep base ps jd ra sent) =
               Inl (APIError AlgoBullsAPIInternalServerErrorException m (base @ ep) p))
          \<and> (status_code r \<notin> {200, 400, 401, 402, 403, 404, 500} \<longrightarrow>
               fst (send_request env self m ep base ps jd ra sent) =
               Inl (APIError AlgoBullsAPIBaseException m (base @ ep) p)))
       \<and> (json_call r = Inr j \<longrightarrow> guarded_parse r = Inr j)
       \<and> (json_call r = Inl JSONDecodeError \<longrightarrow> guarded_parse r = Inr (PyStr (str_repr r)))
       \<and> (json_call r = Inl ex \<and> ex \<noteq> JSONDecodeError \<longrightarrow>
            fst (send_request env self m ep base ps jd ra sent) = Inl ex)"
proof -
  have ok: "status_code r = 200 \<and> json_call r = Inr j \<longrightarrow>
      fst (send_request env self m ep base ps jd ra sent) = Inr j"
  proof
    assume h: "status_code r = 200 \<and> json_call r = Inr j"
    then have "guarded_parse r = Inr j"
      by (simp add: guarded_parse_def)
    then show "fst (send_request env self m ep base ps jd ra sent) = Inr j"
      using h by (simp add: send_request_answer [OF assms])
  qed
  have errs: "guarded_parse r = Inr p \<longrightarrow>
            (status_code r = 400 \<longrightarrow> fst (send_request env self m ep base ps jd ra sent) =
               Inl (APIError AlgoBullsAPIBadRequest m (base @ ep) p))
          \<and> (status_code r = 401 \<longrightarrow> fst (send_request env self m ep base ps jd ra sent) =
               Inl (APIError AlgoBullsAPIUnauthorizedError m (base @ ep) p))
          \<and> (status_code r = 402 \<longrightarrow> fst (send_request env self m ep base ps jd ra sent) =
               Inl (APIError AlgoBullsAPIInsufficientBalanceError m (base @ ep) p))
          \<and> (status_code r = 403 \<longrightarrow> fst (send_request env self m ep base ps jd ra sent) =
               Inl (APIError AlgoBullsAPIForbiddenError m (base @ ep) p))
          \<and> (status_code r = 404 \<longrightarrow> fst (send_request env self m ep base ps jd ra sent) =
               Inl (APIError AlgoBullsAPIResourceNotFoundError m (base @ ep) p))
          \<and> (status_code r = 500 \<longrightarrow> fst (send_request env self m ep base ps jd ra sent) =
               Inl (APIError AlgoBullsAPIInternalServerErrorException m (base @ ep) p))
          \<and> (status_code r \<notin> {200, 400, 401, 402, 403, 404, 500} \<longrightarrow>
               fst (send_request env self m ep base ps jd ra sent) =
               Inl (APIError AlgoBullsAPIBaseException m (base @ ep) p))"
  proof
    assume "guarded_parse r = Inr p"
    from send_request_answer [OF assms this]
    show "(status_code r = 400 \<longrightarrow> fst (send_request env self m ep base ps jd ra sent) =
               Inl (APIError AlgoBullsAPIBadRequest m (base @ ep) p))
          \<and> (status_code r = 401 \<longrightarrow> fst (send_request env self m ep base ps jd ra sent) =
               Inl (APIError AlgoBullsAPIUnauthorizedError m (base @ ep) p))
          \<and> (status_code r = 402 \<longrightarrow> fst (send_request env self m ep base ps jd ra sent) =
               Inl (APIError AlgoBullsAPIInsufficientBalanceError m (base @ ep) p))
          \<and> (status_code r = 403 \<longrightarrow> fst (send_request env self m ep base ps jd ra sent) =
               Inl (APIError AlgoBullsAPIForbiddenError m (base @ ep) p))
          \<and> (status_code r = 404 \<longrightarrow> fst (send_request env self m ep base ps jd ra sent) =
               Inl (APIError AlgoBullsAPIResourceNotFoundError m (base @ ep) p))
          \<and> (status_code r = 500 \<longrightarrow> fst (send_request env self m ep base ps jd ra sent) =
               Inl (APIError AlgoBullsAPIInternalServerErrorException m (base @ ep) p))
          \<and> (status_code r \<notin> {200, 400, 401, 402, 403, 404, 500} \<longrightarrow>
               fst (send_request env self m ep base ps jd ra sent) =
               Inl (APIError AlgoBullsAPIBaseException m (base @ ep) p))"
      by simp
  qed
  have esc: "json_call r = Inl ex \<and> ex \<noteq> JSONDecodeError \<longrightarrow>
      fst (send_request env self m ep base ps jd ra sent) = Inl ex"
  proof
    assume "json_call r = Inl ex \<and> ex \<noteq> JSONDecodeError"
    then have "guarded_parse r = Inl ex"
      by (simp add: guarded_parse_def)
    from send_request_parse_raises [OF assms this]
    show "fst (send_request env self m ep base ps jd ra sent) = Inl ex"
      by simp
  qed
  show ?thesis
    using ok errs esc guarded_parse_cases [of r j ex] by blast
qed

theorem send_request_status_dispatch_witness:
  "requests_request (example_env (always (html_response 404 ''<Response [404]>''))) []
     (built_request init ''get'' ''v2/x'' SERVER_ENDPOINT PyNone PyNone True) =
     Inr (html_response 404 ''<Response [404]>'')
   \<and> guarded_parse (html_response 404 ''<Response [404]>'') = Inr (PyStr ''<Response [404]>'')
   \<and> fst (send_request (example_env (always (html_response 404 ''<Response [404]>''))) init
            ''get'' ''v2/x'' SERVER_ENDPOINT PyNone PyNone True []) =
     Inl (APIError AlgoBullsAPIResourceNotFoundError ''get'' ''http://127.0.0.1:8000/v2/x''
            (PyStr ''<Response [404]>''))
   \<and> requests_request (example_env (always (json_response 200 (PyDict [])))) []
     (built_request init ''get'' ''v2/x'' SERVER_ENDPOINT PyNone PyNone True) =
     Inr (json_response 200 (PyDict []))
   \<and> json_call (json_response 200 (PyDict [])) = Inr (PyDict [])
   \<and> fst (send_request (example_env (always (json_response 200 (PyDict [])))) init
            ''get'' ''v2/x'' SERVER_ENDPOINT PyNone PyNone True []) = Inr (PyDict [])"
proof -
  let ?r = "html_response 404 ''<Response [404]>''"
  let ?ok = "json_response 200 (PyDict [])"
  have a: "requests_request (example_env (always ?r)) []
     (built_request init ''get'' ''v2/x'' SERVER_ENDPOINT PyNone PyNone True) = Inr ?r"
    by (simp add: example_env_def always_def)
  have g: "guarded_parse ?r = Inr (PyStr ''<Response [404]>'')"
    by (simp add: guarded_parse_def html_response_def)
  have s: "status_code ?r = 404"
    by (simp add: html_response_def)
  have b: "requests_request (example_env (always ?ok)) []
     (built_request init ''get'' ''v2/x'' SERVER_ENDPOINT PyNone PyNone True) = Inr ?ok"
    by (simp add: example_env_def always_def)
  have j: "json_call ?ok = Inr (PyDict [])" and t: "status_code ?ok = 200"
    by (simp_all add: json_response_def)
  have "fst (send_request (example_env (always ?r)) init
            ''get'' ''v2/x'' SERVER_ENDPOINT PyNone PyNone True []) =
     Inl (APIError AlgoBullsAPIResourceNotFoundError ''get'' ''http://127.0.0.1:8000/v2/x''
            (PyStr ''<Response [404]>''))"
    using g s send_request_status_dispatch [OF a, of _ "PyStr ''<Response [404]>''"]
    by (simp add: SERVER_ENDPOINT_def)
  moreover have "fst (send_request (example_env (always ?ok)) init
            ''get'' ''v2/x'' SERVER_ENDPOINT PyNone PyNone True []) = Inr (PyDict [])"
    using j t send_request_status_dispatch [OF b, of "PyDict []"]
    by simp
  ultimately show ?thesis
    using a g b j by simp
qed

text \<open>
  The claim as the spec states it, of every response, fails twice. A 404 whose body is
  brackets nested too deeply makes the parse raise \<open>RecursionError\<close>, which the guard
  does not catch: \<open>_send_request\<close> raises that, not \<open>AlgoBullsAPIResourceNotFoundError\<close>.
  And a 200 whose body is not JSON returns no parsed body: it raises
  \<open>JSONDecodeError\<close>.
\<close>

theorem send_request_status_dispatch_counterexample:
  "status_code (deep_response 404 ''<Response [404]>'') = 404
   \<and> fst (send_request (example_env (always (deep_response 404 ''<Response [404]>''))) init
            ''get'' ''v2/x'' SERVER_ENDPOINT PyNone PyNone True []) =
       Inl (PyException ''RecursionError'')
   \<and> status_code (html_response 200 ''<Response [200]>'') = 200
   \<and> fst (send_request (example_env (always (html_response 200 ''<Response [200]>''))) init
            ''get'' ''v2/x'' SERVER_ENDPOINT PyNone PyNone True []) =
       Inl JSONDecodeError"
  by (simp add: send_request_def guarded_parse_def example_env_def always_def
      deep_response_def html_response_def Let_def)

subsection \<open>Bodies that are not JSON\<close>

text \<open>
  Claim C9, amended. When the parse of a response raises \<open>JSONDecodeError\<close>,
  \<open>_send_request\<close> takes the text of \<open>str(response)\<close> as the payload, and on every
  status other than 200 the error it raises carries that string as its response
  payload, not a parsed body. When the parse raises any other exception, nothing is
  substituted: that exception leaves \<open>_send_request\<close>.
\<close>

theorem send_request_string_fallback:
  assumes "requests_request env sent (built_request self m ep base ps jd ra) = Inr r"
  shows "(json_call r = Inl JSONDecodeError \<longrightarrow>
            guarded_parse r = Inr (PyStr (str_repr r))
          \<and> (status_code r \<noteq> 200 \<longrightarrow>
               (\<exists>cls. send_request env self m ep base ps jd ra sent =
                  (Inl (APIError cls m (base @ ep) (PyStr (str_repr r))),
                   sent @ [built_request self m ep base ps jd ra]))))
       \<and> (json_call r = Inl ex \<and> ex \<noteq> JSONDecodeError \<longrightarrow>
            send_request env self m ep base ps jd ra sent =
              (Inl ex, sent @ [built_request self m ep base ps jd ra]))"
proof
  show "json_call r = Inl JSONDecodeError \<longrightarrow>
            guarded_parse r = Inr (PyStr (str_repr r))
          \<and> (status_code r \<noteq> 200 \<longrightarrow>
               (\<exists>cls. send_request env self m ep base ps jd ra sent =
                  (Inl (APIError cls m (base @ ep) (PyStr (str_repr r))),
                   sent @ [built_request self m ep base ps jd ra])))"
  proof
    assume "json_call r = Inl JSONDecodeError"
    then have g: "guarded_parse r = Inr (PyStr (str_repr r))"
      by (simp add: guarded_parse_def)
    show "guarded_parse r = Inr (PyStr (str_repr r))
          \<and> (status_code r \<noteq> 200 \<longrightarrow>
               (\<exists>cls. send_request env self m ep base ps jd ra sent =
                  (Inl (APIError cls m (base @ ep) (PyStr (str_repr r))),
                   sent @ [built_request self m ep base ps jd ra])))"
      using g by (simp add: send_request_answer [OF assms g])
  qed
  show "json_call r = Inl ex \<and> ex \<noteq> JSONDecodeError \<longrightarrow>
            send_request env self m ep base ps jd ra sent =
              (Inl ex, sent @ [built_request self m ep base ps jd ra])"
  proof
    assume "json_call r = Inl ex \<and> ex \<noteq> JSONDecodeError"
    then have "guarded_parse r = Inl ex"
      by (simp add: guarded_parse_def)
    with assms show "send_request env self m ep base ps jd ra sent =
              (Inl ex, sent @ [built_request self m ep base ps jd ra])"
      by (rule send_request_parse_raises)
  qed
qed

theorem send_request_string_fallback_witness:
  "json_call (html_response 503 ''<Response [503]>'') = Inl JSONDecodeError
   \<and> guarded_parse (html_response 503 ''<Response [503]>'') = Inr (PyStr ''<Response [503]>'')
   \<and> (\<exists>cls. send_request (example_env (always (html_response 503 ''<Response [503]>''))) init
            ''post'' ''v2/x'' SERVER_ENDPOINT PyNone PyNone True [] =
         (Inl (APIError cls ''post'' (SERVER_ENDPOINT @ ''v2/x'') (PyStr ''<Response [503]>'')),
          [built_request init ''post'' ''v2/x'' SERVER_ENDPOINT PyNone PyNone True]))"
proof -
  let ?r = "html_response 503 ''<Response [503]>''"
  have a: "requests_request (example_env (always ?r)) []
     (built_request init ''post'' ''v2/x'' SERVER_ENDPOINT PyNone PyNone True) = Inr ?r"
    by (simp add: example_env_def always_def)
  have b: "json_call ?r = Inl JSONDecodeError"
    by (simp add: html_response_def)
  show ?thesis
    using b send_request_string_fallback [OF a]
    by (simp add: html_response_def)
qed

text \<open>
  The claim as the spec states it, of every body that fails to parse, fails: the body
  of two thousand \<open>[\<close> fails to parse with \<open>RecursionError\<close>, and on status 500
  \<open>_send_request\<close> then raises that exception; no string is substituted, and the
  error is none of the client's classes and carries no payload.
\<close>

theorem send_request_string_fallback_counterexample:
  "json_call (deep_response 500 ''<Response [500]>'') = Inl (PyException ''RecursionError'')
   \<and> status_code (deep_response 500 ''<Response [500]>'') = 500
   \<and> send_request (example_env (always (deep_response 500 ''<Response [500]>''))) init
        ''post'' ''v2/x'' SERVER_ENDPOINT PyNone PyNone True [] =
      (Inl (PyException ''RecursionError''),
       [built_request init ''post'' ''v2/x'' SERVER_ENDPOINT PyNone PyNone True])"
  by (simp add: send_request_def built_request_def guarded_parse_def example_env_def always_def
      deep_response_def Let_def)

text \<open>
  Claim C10. When the status is 200 and the body does not parse as JSON (the parse
  raises \<open>JSONDecodeError\<close>), the string fallback is not used: the second
  \<open>response.json()\<close>, outside the guarded parse, raises \<open>JSONDecodeError\<close>, which
  leaves \<open>_send_request\<close> as it is; the result is neither a payload nor one of the
  client's own exception classes.
\<close>

theorem send_request_ok_not_json:
  assumes "requests_request env sent (built_request self m ep base ps jd ra) = Inr r"
      and "status_code r = 200" and "json_call r = Inl JSONDecodeError"
  shows "send_request env self m ep base ps jd ra sent =
           (Inl JSONDecodeError, sent @ [built_request self m ep base ps jd ra])"
proof -
  have "guarded_parse r = Inr (PyStr (str_repr r))"
    using assms(3) by (simp add: guarded_parse_def)
  from send_request_answer [OF assms(1) this] show ?thesis
    using assms(2,3) by simp
qed

theorem send_request_ok_not_json_witness:
  "status_code (html_response 200 ''<Response [200]>'') = 200
   \<and> json_call (html_response 200 ''<Response [200]>'') = Inl JSONDecodeError
   \<and> send_request (example_env (always (html_response 200 ''<Response [200]>''))) init
        ''get'' ''v2/x'' SERVER_ENDPOINT PyNone PyNone True [] =
      (Inl JSONDecodeError, [built_request init ''get'' ''v2/x'' SERVER_ENDPOINT PyNone PyNone True])"
proof -
  let ?r = "html_response 200 ''<Response [200]>''"
  have a: "requests_request (example_env (always ?r)) []
     (built_request init ''get'' ''v2/x'' SERVER_ENDPOINT PyNone PyNone True) = Inr ?r"
    by (simp add: example_env_def always_def)
  have b: "status_code ?r = 200" and c: "json_call ?r = Inl JSONDecodeError"
    by (simp_all add: html_response_def)
  show ?thesis
    using b c send_request_ok_not_json [OF a b c] by simp
qed

subsection \<open>The Authorization header\<close>

lemma send_request_unauthorized:
  "send_request env self' m ep base ps jd False sent = send_request env self m ep base ps jd False sent"
  by (simp add: send_request_def Let_def)

text \<open>
  Claim C7. For every instrument string and every state of the client, the one request
  \<open>search_instrument\<close> sends has no headers at all, so no \<open>Authorization\<close> header; the
  whole outcome of the call is the same for any two clients, whatever token either
  holds.
\<close>

theorem search_instrument_no_authorization:
  "snd (search_instrument env self instrument sent) =
     sent @ [\<lparr>req_method = ''get'', req_headers = None,
              req_url = SERVER_ENDPOINT @ ''v2/instrument/search'',
              req_params = PyDict [(''instrument'', PyStr instrument)], req_json = PyNone\<rparr>]
   \<and> search_instrument env self' instrument sent = search_instrument env self instrument sent"
proof
  show "snd (search_instrument env self instrument sent) =
     sent @ [\<lparr>req_method = ''get'', req_headers = None,
              req_url = SERVER_ENDPOINT @ ''v2/instrument/search'',
              req_params = PyDict [(''instrument'', PyStr instrument)], req_json = PyNone\<rparr>]"
    by (simp add: search_instrument_def send_request_log built_request_def)
  show "search_instrument env self' instrument sent = search_instrument env self instrument sent"
    by (simp add: search_instrument_def send_request_unauthorized [of env self' _ _ _ _ _ _ self])
qed

subsection \<open>Unrecognized tags\<close>

text \<open>
  Claim C6. A trading type that is no member of \<open>TradingType\<close>, given to key resolution
  (directly, or through \<open>set_strategy_config\<close>, \<open>get_job_status\<close>, \<open>get_logs\<close> or
  \<open>get_reports\<close>) or to the endpoint selection of \<open>start_strategy_algotrading\<close> and
  \<open>stop_strategy_algotrading\<close>, and a report type that is no member of
  \<open>TradingReportType\<close>, given to \<open>get_reports\<close>, make the operation raise
  \<open>NotImplementedError\<close> with the client unchanged and the log unchanged: no request
  has been sent.
\<close>

theorem unrecognized_tag_not_implemented:
  "get_key env self c (Unrecognized v) sent = (Inl NotImplementedError, self, sent)
   \<and> start_strategy_algotrading env self c (Unrecognized v) sent = (Inl NotImplementedError, self, sent)
   \<and> stop_strategy_algotrading env self c (Unrecognized v) sent = (Inl NotImplementedError, self, sent)
   \<and> get_reports env self c t (Unrecognized v) sent = (Inl NotImplementedError, self, sent)
   \<and> get_reports env self c (Unrecognized v) r sent = (Inl NotImplementedError, self, sent)
   \<and> set_strategy_config env self c cfg (Unrecognized v) sent = (Inl NotImplementedError, self, sent)
   \<and> get_job_status env self c (Unrecognized v) sent = (Inl NotImplementedError, self, sent)
   \<and> get_logs env self c (Unrecognized v) sent = (Inl NotImplementedError, self, sent)"
  by (simp add: get_key_Unrecognized start_strategy_algotrading_def stop_strategy_algotrading_def
      strategies_endpoint_def get_reports_def report_endpoint_def set_strategy_config_def
      get_job_status_def get_logs_def)

subsection \<open>The key cache: frame\<close>

lemma slot_set_slot: "slot t' (set_slot t key self) = (if t' = t then key else slot t' self)"
  by (cases t; cases t') simp_all

lemma headers_set_slot: "headers (set_slot t key self) = headers self"
  by (cases t) simp_all

lemma get_key_headers: "headers (fst (snd (get_key env self c tt sent))) = headers self"
  by (cases tt) (simp_all add: get_key_Member get_key_Unrecognized headers_set_slot
      split: prod.splits sum.splits)

lemma get_key_other_slots:
  "t' \<noteq> t \<Longrightarrow> slot t' (fst (snd (get_key env self c (Member t) sent))) = slot t' self"
  by (simp add: get_key_Member slot_set_slot split: prod.splits sum.splits)

text \<open>
  Claim C5. The three cache slots are independent. Key resolution for one trading type
  gives the same result, sends the same requests and leaves the same value in that
  type's slot for any two clients that agree on the headers and on that slot, whatever
  the other two slots hold: it does not read them. And it leaves the headers and the
  other two slots as they were: it writes to its own slot only.
\<close>

theorem get_key_slots_independent:
  assumes "headers self2 = headers self1" and "slot t self2 = slot t self1"
  shows "fst (get_key env self2 c (Member t) sent) = fst (get_key env self1 c (Member t) sent)
       \<and> snd (snd (get_key env self2 c (Member t) sent)) = snd (snd (get_key env self1 c (Member t) sent))
       \<and> slot t (fst (snd (get_key env self2 c (Member t) sent))) =
           slot t (fst (snd (get_key env self1 c (Member t) sent)))
       \<and> headers (fst (snd (get_key env self1 c (Member t) sent))) = headers self1
       \<and> (\<forall>t'. t' \<noteq> t \<longrightarrow>
             slot t' (fst (snd (get_key env self1 c (Member t) sent))) = slot t' self1)"
proof -
  have f: "fetch_key env self2 c t sent = fetch_key env self1 c t sent"
    using assms(1) by (rule fetch_key_headers_only)
  have "fst (get_key env self2 c (Member t) sent) = fst (get_key env self1 c (Member t) sent)"
    using assms(2) by (simp add: get_key_Member f split: prod.splits sum.splits)
  moreover have "snd (snd (get_key env self2 c (Member t) sent)) =
      snd (snd (get_key env self1 c (Member t) sent))"
    using assms(2) by (simp add: get_key_Member f split: prod.splits sum.splits)
  moreover have "slot t (fst (snd (get_key env self2 c (Member t) sent))) =
      slot t (fst (snd (get_key env self1 c (Member t) sent)))"
    using assms(2) by (simp add: get_key_Member f slot_set_slot split: prod.splits sum.splits)
  ultimately show ?thesis
    by (simp add: get_key_headers get_key_other_slots)
qed

theorem get_key_slots_independent_witness:
  "headers (init\<lparr>key_papertrading := PyStr ''p'', key_realtrading := PyStr ''r''\<rparr>) = headers init
   \<and> slot BACKTESTING (init\<lparr>key_papertrading := PyStr ''p'', key_realtrading := PyStr ''r''\<rparr>) =
       slot BACKTESTING init
   \<and> fst (get_key (example_env keyed_backend)
             (init\<lparr>key_papertrading := PyStr ''p'', key_realtrading := PyStr ''r''\<rparr>)
             ''S'' (Member BACKTESTING) []) =
       fst (get_key (example_env keyed_backend) init ''S'' (Member BACKTESTING) [])
   \<and> fst (get_key (example_env keyed_backend) init ''S'' (Member BACKTESTING) []) = Inr (PyStr ''key-S'')
   \<and> slot PAPERTRADING (fst (snd (get_key (example_env keyed_backend) init ''S'' (Member BACKTESTING) []))) = PyNone
   \<and> slot REALTRADING (fst (snd (get_key (example_env keyed_backend) init ''S'' (Member BACKTESTING) []))) = PyNone"
proof -
  let ?s2 = "init\<lparr>key_papertrading := PyStr ''p'', key_realtrading := PyStr ''r''\<rparr>"
  have a: "headers ?s2 = headers init" by simp
  have b: "slot BACKTESTING ?s2 = slot BACKTESTING init" by simp
  have k: "fst (get_key (example_env keyed_backend) init ''S'' (Member BACKTESTING) []) = Inr (PyStr ''key-S'')"
    by (simp add: get_key_def init_def fetch_key_def send_request_def guarded_parse_def example_env_def
        keyed_backend_def is_registration_def json_response_def Let_def)
  note th = get_key_slots_independent [OF a b, of "example_env keyed_backend" "''S''" "[]"]
  from th have e: "fst (get_key (example_env keyed_backend) ?s2 ''S'' (Member BACKTESTING) []) =
      fst (get_key (example_env keyed_backend) init ''S'' (Member BACKTESTING) [])"
    by simp
  from th have "\<forall>t'. t' \<noteq> BACKTESTING \<longrightarrow>
      slot t' (fst (snd (get_key (example_env keyed_backend) init ''S'' (Member BACKTESTING) []))) =
      slot t' init"
    by simp
  then have p: "slot PAPERTRADING (fst (snd (get_key (example_env keyed_backend) init ''S'' (Member BACKTESTING) []))) =
      slot PAPERTRADING init"
    and r: "slot REALTRADING (fst (snd (get_key (example_env keyed_backend) init ''S'' (Member BACKTESTING) []))) =
      slot REALTRADING init"
    by (metis TradingType.distinct(1), metis TradingType.distinct(3))
  have i: "slot PAPERTRADING init = PyNone" "slot REALTRADING init = PyNone"
    by (simp_all add: init_def)
  show ?thesis
    using a b k e p r i by simp
qed

subsection \<open>The requests of a sequence of calls\<close>








lemma get_job_status_shape:
  "get_job_status env self c tt sent =
     key_then_request env self c tt ''get'' (\<lambda>key. ''v2/user/strategy/status'')
       (\<lambda>key. PyDict [(''key'', key)]) (\<lambda>key. PyNone) sent"
  by (simp add: get_job_status_def key_then_request_def Let_def split: prod.splits sum.splits)

lemma get_logs_shape:
  "get_logs env self c tt sent =
     key_then_request env self c tt ''post'' (\<lambda>key. ''v2/user/strategy/logs'')
       (\<lambda>key. PyNone) (\<lambda>key. PyDict [(''key'', key)]) sent"
  by (simp add: get_logs_def key_then_request_def Let_def split: prod.splits sum.splits)

lemma get_reports_shape:
  "report_endpoint rt = Inr endpoint \<Longrightarrow>
   get_reports env self c tt rt sent =
     key_then_request env self c tt ''get'' (\<lambda>key. endpoint)
       (\<lambda>key. PyDict [(''key'', key)]) (\<lambda>key. PyNone) sent"
  by (simp add: get_reports_def key_then_request_def Let_def split: prod.splits sum.splits)

lemma get_reports_no_endpoint:
  "report_endpoint rt = Inl e \<Longrightarrow> get_reports env self c tt rt sent = (Inl e, self, sent)"
  by (simp add: get_reports_def)

lemma job_try_block_shape:
  "job_try_block env self c tt endpoint new_val status sent =
     key_then_request env self c tt ''post'' (\<lambda>key. endpoint) (\<lambda>key. PyNone)
       (\<lambda>key. PyDict [(''method'', PyStr ''update''), (''newVal'', PyInt new_val),
                       (''key'', key), (''record'', PyDict [(''status'', PyInt status)])]) sent"
  by (simp add: job_try_block_def key_then_request_def Let_def split: prod.splits sum.splits)

lemma set_strategy_config_shape:
  "snd (set_strategy_config env self c cfg tt sent) =
     snd (key_then_request env self c tt ''patch''
       (\<lambda>key. ''v2/user/strategy/'' @ format_value env key @ ''/tweak'')
       (\<lambda>key. PyNone) (\<lambda>key. cfg) sent)"
  by (simp add: set_strategy_config_def key_then_request_def Let_def split: prod.splits sum.splits)

lemma snd_except_handler: "snd (except_handler out) = snd out"
  by (simp add: except_handler_def split: prod.splits sum.splits)









subsection \<open>The key cache: registrations\<close>

lemma registrations_snoc:
  "registrations (sent @ [rq]) = registrations sent + (if is_registration rq then 1 else 0)"
  by (simp add: registrations_def)

lemma built_request_not_registration:
  "m \<noteq> ''options'' \<Longrightarrow> \<not> is_registration (built_request self m ep base ps jd ra)"
  by (simp add: is_registration_def built_request_def)

lemma get_key_filled:
  "slot t self \<noteq> PyNone \<Longrightarrow>
   get_key env self c (Member t) sent = (Inr (slot t self), self, sent)"
  by (simp add: get_key_Member)

lemma fetch_key_log:
  "\<exists>rq. snd (fetch_key env self c t sent) = sent @ [rq]"
  by (simp add: fetch_key_def Let_def send_request_log split: prod.splits sum.splits)
     (metis send_request_log snd_conv)

lemma get_key_registrations:
  "registrations (snd (snd (get_key env self c tt sent))) \<le> registrations sent + 1"
proof (cases tt)
  case (Member t)
  show ?thesis
  proof (cases "slot t self = PyNone")
    case True
    then have "snd (snd (get_key env self c tt sent)) = snd (fetch_key env self c t sent)"
      by (simp add: Member get_key_Member split: prod.splits sum.splits)
    moreover obtain rq where "snd (fetch_key env self c t sent) = sent @ [rq]"
      using fetch_key_log by blast
    ultimately show ?thesis
      by (simp add: registrations_snoc)
  next
    case False
    then show ?thesis
      by (simp add: Member get_key_filled)
  qed
next
  case (Unrecognized v)
  then show ?thesis
    by (simp add: get_key_Unrecognized)
qed

lemma key_then_request_log:
  "snd (snd (key_then_request env self c tt m ep ps jd sent)) = snd (snd (get_key env self c tt sent))
   \<or> (\<exists>key self'. snd (snd (key_then_request env self c tt m ep ps jd sent)) =
         snd (snd (get_key env self c tt sent)) @
           [built_request self' m (ep key) SERVER_ENDPOINT (ps key) (jd key) True])"
proof (cases "get_key env self c tt sent")
  case (fields r self' sent')
  show ?thesis
  proof (cases r)
    case (Inl e)
    then show ?thesis
      using fields by (simp add: key_then_request_def)
  next
    case (Inr key)
    have "snd (snd (key_then_request env self c tt m ep ps jd sent)) =
        snd (send_request env self' m (ep key) SERVER_ENDPOINT (ps key) (jd key) True sent')"
      using fields Inr by (auto simp: key_then_request_def split: prod.splits)
    then show ?thesis
      using fields by (auto simp: send_request_log)
  qed
qed

lemma key_then_request_registrations:
  assumes "m \<noteq> ''options''"
  shows "registrations (snd (snd (key_then_request env self c tt m ep ps jd sent))) =
         registrations (snd (snd (get_key env self c tt sent)))"
  using key_then_request_log [of env self c tt m ep ps jd sent]
    built_request_not_registration [OF assms]
  by (auto simp: registrations_snoc)

lemma key_then_request_state:
  "fst (snd (key_then_request env self c tt m ep ps jd sent)) = fst (snd (get_key env self c tt sent))"
  by (simp add: key_then_request_def split: prod.splits sum.splits)

text \<open>What a key-dependent call does to the client and to the number of registrations.\<close>

lemma run_call_key_dependent:
  assumes "key_dependent c = Some tt"
  shows "(fst (run_call env c (self, sent)) = self \<and>
          registrations (snd (run_call env c (self, sent))) = registrations sent)
       \<or> (\<exists>code. fst (run_call env c (self, sent)) = fst (snd (get_key env self code tt sent)) \<and>
            registrations (snd (run_call env c (self, sent))) =
            registrations (snd (snd (get_key env self code tt sent))))"
proof (cases c)
  case (SetStrategyConfig code cfg t)
  then show ?thesis
    using assms
    by (auto simp: set_strategy_config_shape key_then_request_registrations key_then_request_state)
next
  case (StartStrategyAlgotrading code t)
  then show ?thesis
    using assms
    by (cases "strategies_endpoint t")
       (auto simp: start_strategy_algotrading_def snd_except_handler job_try_block_shape
          key_then_request_registrations key_then_request_state)
next
  case (StopStrategyAlgotrading code t)
  then show ?thesis
    using assms
    by (cases "strategies_endpoint t")
       (auto simp: stop_strategy_algotrading_def snd_except_handler job_try_block_shape
          key_then_request_registrations key_then_request_state)
next
  case (GetJobStatus code t)
  then show ?thesis
    using assms
    by (auto simp: get_job_status_shape key_then_request_registrations key_then_request_state)
next
  case (GetLogs code t)
  then show ?thesis
    using assms
    by (auto simp: get_logs_shape key_then_request_registrations key_then_request_state)
next
  case (GetReports code t rt)
  then show ?thesis
    using assms
    by (cases "report_endpoint rt")
       (auto simp: get_reports_no_endpoint get_reports_shape
          key_then_request_registrations key_then_request_state)
qed (use assms in simp_all)


text \<open>Key resolution that returns has stored what it returns.\<close>

lemma get_key_stores:
  "get_key env self c (Member t) sent = (Inr key, self', sent') \<Longrightarrow> slot t self' = key"
  by (auto simp: get_key_Member slot_set_slot split: if_splits prod.splits sum.splits)

text \<open>
  An empty slot is filled when the registration is answered with status 200 and an
  object whose \<open>key\<close> is not \<open>None\<close>.
\<close>

lemma get_key_fills_slot:
  assumes "slot t self = PyNone"
      and "requests_request env sent
             (built_request self ''options'' ''v2/portfolio/strategy'' SERVER_ENDPOINT PyNone
                (PyDict [(''strategyId'', PyStr c), (''tradingType'', trading_type_value env t)]) True)
           = Inr r"
      and "status_code r = 200" and "json_call r = Inr (PyDict items)"
      and "map_of items ''key'' = Some key"
  shows "get_key env self c (Member t) sent =
           (Inr key, set_slot t key self,
            sent @ [built_request self ''options'' ''v2/portfolio/strategy'' SERVER_ENDPOINT PyNone
                (PyDict [(''strategyId'', PyStr c), (''tradingType'', trading_type_value env t)]) True])"
proof -
  have "guarded_parse r = Inr (PyDict items)"
    using assms(4) by (simp add: guarded_parse_def)
  from send_request_answer [OF assms(2) this] show ?thesis
    using assms(1,3,4,5) by (simp add: get_key_Member fetch_key_def Let_def)
qed

text \<open>
  Claim C3, amended. Two key-dependent calls in sequence for the same trading type
  (any two of \<open>set_strategy_config\<close>, \<open>start_strategy_algotrading\<close>,
  \<open>stop_strategy_algotrading\<close>, \<open>get_job_status\<close>, \<open>get_logs\<close>, \<open>get_reports\<close>): the first
  sends at most one registration request; and when it leaves the slot of that trading
  type filled (not \<open>None\<close>), the second sends no registration request, leaves the client
  as it is, and key resolution gives the value of the slot without sending anything.
  So the two calls together send at most one registration request.
\<close>

theorem second_call_hits_cache:
  assumes "key_dependent c1 = Some (Member t)" and "key_dependent c2 = Some (Member t)"
      and "run_call env c1 (self, sent) = (self1, sent1)"
      and "slot t self1 \<noteq> PyNone"
  shows "registrations sent1 \<le> registrations sent + 1
       \<and> registrations (snd (run_call env c2 (self1, sent1))) = registrations sent1
       \<and> fst (run_call env c2 (self1, sent1)) = self1
       \<and> (\<forall>code. get_key env self1 code (Member t) sent1 = (Inr (slot t self1), self1, sent1))"
proof -
  have first: "registrations sent1 \<le> registrations sent + 1"
    using run_call_key_dependent [OF assms(1), of env self sent] assms(3)
      get_key_registrations [of env self _ "Member t" sent]
    by auto
  have hit: "\<And>code. get_key env self1 code (Member t) sent1 = (Inr (slot t self1), self1, sent1)"
    using assms(4) by (rule get_key_filled)
  have second: "registrations (snd (run_call env c2 (self1, sent1))) = registrations sent1
      \<and> fst (run_call env c2 (self1, sent1)) = self1"
    using run_call_key_dependent [OF assms(2), of env self1 sent1] hit
    by auto
  show ?thesis
    using first second hit by simp
qed

theorem second_call_hits_cache_witness:
  "key_dependent (GetJobStatus ''S'' (Member BACKTESTING)) = Some (Member BACKTESTING)
   \<and> key_dependent (GetLogs ''S'' (Member BACKTESTING)) = Some (Member BACKTESTING)
   \<and> run_call (example_env keyed_backend) (GetJobStatus ''S'' (Member BACKTESTING)) (init, []) =
       (init\<lparr>key_backtesting := PyStr ''key-S''\<rparr>,
        [built_request init ''options'' ''v2/portfolio/strategy'' SERVER_ENDPOINT PyNone
           (PyDict [(''strategyId'', PyStr ''S''), (''tradingType'', PyStr ''BACKTESTING'')]) True,
         built_request init ''get'' ''v2/user/strategy/status'' SERVER_ENDPOINT
           (PyDict [(''key'', PyStr ''key-S'')]) PyNone True])
   \<and> slot BACKTESTING (init\<lparr>key_backtesting := PyStr ''key-S''\<rparr>) \<noteq> PyNone
   \<and> registrations (snd (run_calls (example_env keyed_backend)
        [GetJobStatus ''S'' (Member BACKTESTING), GetLogs ''S'' (Member BACKTESTING)] (init, []))) = 1"
proof -
  let ?env = "example_env keyed_backend"
  let ?c1 = "GetJobStatus ''S'' (Member BACKTESTING)"
  let ?c2 = "GetLogs ''S'' (Member BACKTESTING)"
  let ?self1 = "init\<lparr>key_backtesting := PyStr ''key-S''\<rparr>"
  let ?sent1 = "[built_request init ''options'' ''v2/portfolio/strategy'' SERVER_ENDPOINT PyNone
           (PyDict [(''strategyId'', PyStr ''S''), (''tradingType'', PyStr ''BACKTESTING'')]) True,
         built_request init ''get'' ''v2/user/strategy/status'' SERVER_ENDPOINT
           (PyDict [(''key'', PyStr ''key-S'')]) PyNone True]"
  have a: "key_dependent ?c1 = Some (Member BACKTESTING)"
    and b: "key_dependent ?c2 = Some (Member BACKTESTING)"
    by simp_all
  have c: "run_call ?env ?c1 (init, []) = (?self1, ?sent1)"
    by (simp add: get_job_status_def get_key_def fetch_key_def send_request_def guarded_parse_def built_request_def
        init_def example_env_def keyed_backend_def is_registration_def json_response_def
        SERVER_ENDPOINT_def Let_def)
  have d: "slot BACKTESTING ?self1 \<noteq> PyNone"
    by simp
  have r1: "registrations ?sent1 = 1"
    by (simp add: registrations_def is_registration_def built_request_def)
  have "registrations (snd (run_call ?env ?c2 (?self1, ?sent1))) = registrations ?sent1"
    using second_call_hits_cache [OF a b c d] by simp
  then have "registrations (snd (run_calls ?env [?c1, ?c2] (init, []))) = 1"
    using c r1 by simp
  then show ?thesis
    using a b c d by simp
qed

text \<open>
  The claim as the spec states it, without the condition on the slot, fails. A slot is
  assigned only when the registration returns, and it counts as empty while it holds
  \<open>None\<close>: when the backend answers the registration with an object that has no \<open>key\<close>
  (first case), or with status 500 (second case), the slot stays empty and the second
  call registers again. Two calls of \<open>get_job_status\<close> then send two registration
  requests.
\<close>

theorem two_calls_two_registrations:
  "registrations (snd (run_calls (example_env (always (json_response 200 (PyDict []))))
      [GetJobStatus ''S'' (Member BACKTESTING), GetJobStatus ''S'' (Member BACKTESTING)]
      (init, []))) = 2
   \<and> registrations (snd (run_calls (example_env (always (json_response 500 (PyDict []))))
      [GetJobStatus ''S'' (Member BACKTESTING), GetJobStatus ''S'' (Member BACKTESTING)]
      (init, []))) = 2"
  by (simp add: get_job_status_def get_key_def fetch_key_def send_request_def guarded_parse_def
      init_def example_env_def always_def json_response_def registrations_def is_registration_def
      SERVER_ENDPOINT_def Let_def)

subsection \<open>Propagation of errors\<close>
























subsection \<open>The key cache: one key per trading type\<close>

text \<open>
  A filled slot is kept: key-dependent calls for its trading type, whatever their
  strategy codes, leave the client as it is and register nothing.
\<close>

lemma run_call_filled:
  assumes "key_dependent c = Some (Member t)" and "slot t self \<noteq> PyNone"
  shows "fst (run_call env c (self, sent)) = self
       \<and> registrations (snd (run_call env c (self, sent))) = registrations sent"
  using run_call_key_dependent [OF assms(1), of env self sent] get_key_filled [OF assms(2)]
  by auto

lemma filled_slot_kept:
  assumes "\<forall>c\<in>set cs. key_dependent c = Some (Member t)" and "slot t self \<noteq> PyNone"
  shows "fst (run_calls env cs (self, sent)) = self
       \<and> registrations (snd (run_calls env cs (self, sent))) = registrations sent"
  using assms
proof (induction cs arbitrary: sent)
  case Nil
  then show ?case by simp
next
  case (Cons c cs)
  have kd: "key_dependent c = Some (Member t)"
    using Cons.prems(1) by simp
  obtain sent1 where step: "run_call env c (self, sent) = (self, sent1)"
    and r: "registrations sent1 = registrations sent"
    using run_call_filled [OF kd Cons.prems(2), of env sent]
    by (cases "run_call env c (self, sent)") auto
  have "fst (run_calls env cs (self, sent1)) = self
      \<and> registrations (snd (run_calls env cs (self, sent1))) = registrations sent1"
    using Cons.IH [of sent1] Cons.prems by simp
  then show ?case
    using step r by simp
qed

text \<open>
  Claim C4 says that the key an operation uses for a strategy code and a trading type
  is the key the backend assigned to that pair. The cache has one slot per trading
  type and \<open>__get_key\<close> does not compare strategy codes, so this holds for the strategy
  that filled the slot only. Here the backend assigns \<open>key-A\<close> to strategy \<open>A\<close> and
  \<open>key-B\<close> to strategy \<open>B\<close>; on a new client \<open>get_job_status\<close> for \<open>A\<close> and then for
  \<open>B\<close>, both in backtesting, sends one registration (for \<open>A\<close>) and asks for the status
  under \<open>key-A\<close> both times.
\<close>

theorem second_strategy_gets_first_key:
  "fst (fetch_key (example_env keyed_backend) init ''A'' BACKTESTING []) = Inr (PyStr ''key-A'')
   \<and> fst (fetch_key (example_env keyed_backend) init ''B'' BACKTESTING []) = Inr (PyStr ''key-B'')
   \<and> run_calls (example_env keyed_backend)
        [GetJobStatus ''A'' (Member BACKTESTING), GetJobStatus ''B'' (Member BACKTESTING)] (init, []) =
      (init\<lparr>key_backtesting := PyStr ''key-A''\<rparr>,
       [built_request init ''options'' ''v2/portfolio/strategy'' SERVER_ENDPOINT PyNone
          (PyDict [(''strategyId'', PyStr ''A''), (''tradingType'', PyStr ''BACKTESTING'')]) True,
        built_request init ''get'' ''v2/user/strategy/status'' SERVER_ENDPOINT
          (PyDict [(''key'', PyStr ''key-A'')]) PyNone True,
        built_request init ''get'' ''v2/user/strategy/status'' SERVER_ENDPOINT
          (PyDict [(''key'', PyStr ''key-A'')]) PyNone True])"
  by (simp add: get_job_status_def get_key_def fetch_key_def send_request_def guarded_parse_def built_request_def
      init_def example_env_def keyed_backend_def is_registration_def json_response_def
      SERVER_ENDPOINT_def Let_def)

end
